theory Spec2Isabelle
  imports Main
begin

section \<open>Python values handled by the generator data adapter\<close>

text \<open>
  The adapter of \<^verbatim>\<open>keras/trainers/data_adapters/generator_data_adapter.py\<close> receives a
  Python generator of batches. A batch is a nested structure (tuples and lists) whose
  leaves are array-like objects. The adapter only observes a leaf through its class, its
  \<^verbatim>\<open>shape\<close> and \<^verbatim>\<open>dtype\<close> attributes and its \<^verbatim>\<open>tocoo\<close> method, so a leaf is a
  record of exactly these observations, together with the element buffer it carries.
\<close>

datatype error =
    StopIteration
  | ValueError string
  | ConcatenateError

text \<open>A dimension of a shape is a size or \<^verbatim>\<open>None\<close> (unknown).\<close>

type_synonym dim = "nat option"

text \<open>
  The class of a leaf: the two TensorFlow classes the adapter tests with
  \<^verbatim>\<open>isinstance\<close>, or any other class, given by the name of its defining module
  (\<^verbatim>\<open>x.__class__.__module__\<close>).
\<close>

datatype py_class =
    TfRaggedTensor
  | TfSparseTensor
  | OtherClass string

fun class_module :: "py_class \<Rightarrow> string" where
  "class_module TfRaggedTensor = ''tensorflow.python.ops.ragged.ragged_tensor''"
| "class_module TfSparseTensor = ''tensorflow.python.framework.sparse_tensor''"
| "class_module (OtherClass m) = m"

text \<open>The coordinate form of a sparse matrix, as \<^verbatim>\<open>x.tocoo()\<close> returns it.\<close>

record 'v coo_matrix =
  row :: "nat list"
  col :: "nat list"
  data :: "'v list"
  coo_shape :: "nat list"

text \<open>
  An array-like object. \<^verbatim>\<open>tocoo\<close> is \<open>None\<close> when the object has no such attribute
  and \<open>Some c\<close> when calling it returns \<open>c\<close>.
\<close>

record 'v pyobj =
  cls :: py_class
  shape :: "dim list"
  dtype :: string
  tocoo :: "'v coo_matrix option"
  buffer :: "'v list"

text \<open>Nested structures as \<^verbatim>\<open>tree.map_structure\<close> traverses them.\<close>

datatype 'a nest =
    Leaf 'a
  | Tuple "'a nest list"
  | PyList "'a nest list"

type_synonym 'v batch = "'v pyobj nest"

text \<open>The value \<^verbatim>\<open>tf.SparseTensor(indices, values, dense_shape)\<close>.\<close>

record 'v sparse_tensor =
  indices :: "nat list list"
  tensor_values :: "'v list"
  dense_shape :: "nat list"

text \<open>A leaf of a batch handed to TensorFlow: the object itself or a new sparse tensor.\<close>

datatype 'v tf_value =
    PyObject "'v pyobj"
  | SparseTensor "'v sparse_tensor"

text \<open>The three descriptors of the output signature, each with a shape and a dtype name.\<close>

datatype tensor_spec =
    RaggedTensorSpec "dim list" string
  | SparseTensorSpec "dim list" string
  | TensorSpec "dim list" string

fun spec_shape :: "tensor_spec \<Rightarrow> dim list" where
  "spec_shape (RaggedTensorSpec s d) = s"
| "spec_shape (SparseTensorSpec s d) = s"
| "spec_shape (TensorSpec s d) = s"

fun spec_dtype :: "tensor_spec \<Rightarrow> string" where
  "spec_dtype (RaggedTensorSpec s d) = d"
| "spec_dtype (SparseTensorSpec s d) = d"
| "spec_dtype (TensorSpec s d) = d"

section \<open>Generators and \<^verbatim>\<open>itertools.chain\<close>\<close>

text \<open>
  A Python generator is single-pass and may never end, so its state is the possibly
  infinite sequence of the elements it has still to yield.
\<close>

codatatype 'a py_generator =
    Exhausted
  | Yield 'a "'a py_generator"

text \<open>\<^verbatim>\<open>next(generator)\<close>: the result and the generator afterwards.\<close>

definition next_gen :: "'a py_generator \<Rightarrow> (error + 'a) \<times> 'a py_generator" where
  "next_gen g = (case g of
       Exhausted \<Rightarrow> (Inl StopIteration, Exhausted)
     | Yield x g' \<Rightarrow> (Inr x, g'))"

text \<open>
  \<^verbatim>\<open>itertools.chain(xs, generator)\<close>: the elements of the list it has not yet handed
  out, then the generator, which it advances itself from then on.
\<close>

record 'a chain =
  pending :: "'a list"
  source :: "'a py_generator"

definition itertools_chain :: "'a list \<Rightarrow> 'a py_generator \<Rightarrow> 'a chain" where
  "itertools_chain xs g = \<lparr>pending = xs, source = g\<rparr>"

definition next_chain :: "'a chain \<Rightarrow> (error + 'a) \<times> 'a chain" where
  "next_chain c = (case pending c of
       x # xs \<Rightarrow> (Inr x, c\<lparr>pending := xs\<rparr>)
     | [] \<Rightarrow> (case next_gen (source c) of (r, g) \<Rightarrow> (r, c\<lparr>source := g\<rparr>)))"

text \<open>
  \<^verbatim>\<open>peek_and_restore\<close>. The second component of the result is the caller's generator
  after the call.
\<close>

definition peek_and_restore ::
  "'a py_generator \<Rightarrow> (error + ('a \<times> 'a chain)) \<times> 'a py_generator" where
  "peek_and_restore generator = (case next_gen generator of
       (Inl e, g) \<Rightarrow> (Inl e, g)
     | (Inr element, g) \<Rightarrow> (Inr (element, itertools_chain [element] g), g))"

text \<open>The results of \<open>n\<close> successive calls of \<^verbatim>\<open>next\<close> on a generator.\<close>

fun nexts :: "nat \<Rightarrow> 'a py_generator \<Rightarrow> (error + 'a) list" where
  "nexts 0 g = []"
| "nexts (Suc n) g = (case next_gen g of (r, g') \<Rightarrow> r # nexts n g')"

section \<open>Structure traversal\<close>

text \<open>
  \<^verbatim>\<open>tree.map_structure(f, structure)\<close> applies \<open>f\<close> to the leaves from left to right and
  rebuilds the structure; the first exception \<open>f\<close> raises ends the traversal.
\<close>

fun map_structure :: "('a \<Rightarrow> error + 'b) \<Rightarrow> 'a nest \<Rightarrow> error + 'b nest"
  and map_structures :: "('a \<Rightarrow> error + 'b) \<Rightarrow> 'a nest list \<Rightarrow> error + 'b nest list" where
  "map_structure f (Leaf x) = (case f x of Inl e \<Rightarrow> Inl e | Inr y \<Rightarrow> Inr (Leaf y))"
| "map_structure f (Tuple xs) =
     (case map_structures f xs of Inl e \<Rightarrow> Inl e | Inr ys \<Rightarrow> Inr (Tuple ys))"
| "map_structure f (PyList xs) =
     (case map_structures f xs of Inl e \<Rightarrow> Inl e | Inr ys \<Rightarrow> Inr (PyList ys))"
| "map_structures f [] = Inr []"
| "map_structures f (x # xs) =
     (case map_structure f x of
        Inl e \<Rightarrow> Inl e
      | Inr y \<Rightarrow> (case map_structures f xs of Inl e \<Rightarrow> Inl e | Inr ys \<Rightarrow> Inr (y # ys)))"

text \<open>The leaves of a structure in traversal order (\<^verbatim>\<open>tree.flatten\<close>).\<close>

fun flatten :: "'a nest \<Rightarrow> 'a list"
  and flattens :: "'a nest list \<Rightarrow> 'a list" where
  "flatten (Leaf x) = [x]"
| "flatten (Tuple xs) = flattens xs"
| "flatten (PyList xs) = flattens xs"
| "flattens [] = []"
| "flattens (x # xs) = flatten x @ flattens xs"

section \<open>The adapter\<close>

text \<open>\<^verbatim>\<open>isinstance(x, tuple)\<close>.\<close>

fun isinstance_tuple :: "'a nest \<Rightarrow> bool" where
  "isinstance_tuple (Tuple xs) = True"
| "isinstance_tuple _ = False"

text \<open>Python's \<^verbatim>\<open>str\<close> of a natural number.\<close>

fun digit_char :: "nat \<Rightarrow> char" where
  "digit_char n = ''0123456789'' ! n"

function str_nat :: "nat \<Rightarrow> string" where
  "str_nat n = (if n < 10 then [digit_char n] else str_nat (n div 10) @ [digit_char (n mod 10)])"
  by pat_completeness auto
termination
  by (relation "measure id") auto

text \<open>\<^verbatim>\<open>s.startswith(p)\<close>.\<close>

definition startswith :: "string \<Rightarrow> string \<Rightarrow> bool" where
  "startswith s p = (take (length p) s = p)"

definition is_scipy_sparse :: "'v pyobj \<Rightarrow> bool" where
  "is_scipy_sparse x = (startswith (class_module (cls x)) ''scipy.sparse'' \<and> tocoo x \<noteq> None)"

text \<open>
  \<^verbatim>\<open>np.expand_dims(a, axis=1)\<close> of a one-dimensional array and
  \<^verbatim>\<open>np.concatenate((a, b), axis=1)\<close> of two two-dimensional arrays, which raises when
  they differ in their number of rows.
\<close>

definition expand_dims_axis1 :: "'a list \<Rightarrow> 'a list list" where
  "expand_dims_axis1 a = map (\<lambda>v. [v]) a"

definition concatenate_axis1 :: "'a list list \<Rightarrow> 'a list list \<Rightarrow> error + 'a list list" where
  "concatenate_axis1 a b =
     (if length a = length b then Inr (map (\<lambda>(r, s). r @ s) (zip a b)) else Inl ConcatenateError)"

text \<open>
  \<^verbatim>\<open>scipy_sparse_to_tf_sparse\<close>, given the coordinate form \<^verbatim>\<open>x.tocoo()\<close>.
\<close>

definition scipy_sparse_to_tf_sparse :: "'v coo_matrix \<Rightarrow> error + 'v sparse_tensor" where
  "scipy_sparse_to_tf_sparse sparse_coo =
     (case concatenate_axis1 (expand_dims_axis1 (row sparse_coo)) (expand_dims_axis1 (col sparse_coo)) of
        Inl e \<Rightarrow> Inl e
      | Inr ixs \<Rightarrow> Inr \<lparr>indices = ixs, tensor_values = data sparse_coo, dense_shape = coo_shape sparse_coo\<rparr>)"

text \<open>\<^verbatim>\<open>convert_to_tf\<close> of \<^verbatim>\<open>get_tf_dataset\<close>.\<close>

definition convert_to_tf :: "'v pyobj \<Rightarrow> error + 'v tf_value" where
  "convert_to_tf x =
     (if is_scipy_sparse x then
        (case tocoo x of
           Some sparse_coo \<Rightarrow>
             (case scipy_sparse_to_tf_sparse sparse_coo of
                Inl e \<Rightarrow> Inl e
              | Inr t \<Rightarrow> Inr (SparseTensor t))
         | None \<Rightarrow> Inr (PyObject x))
      else Inr (PyObject x))"

text \<open>
  \<^verbatim>\<open>get_tensor_spec\<close> of \<^verbatim>\<open>_set_tf_output_signature\<close>. Python's \<^verbatim>\<open>str\<close> of a value
  and \<^verbatim>\<open>backend.standardize_dtype\<close> are parameters.
\<close>

definition get_tensor_spec ::
  "('v batch \<Rightarrow> string) \<Rightarrow> (string \<Rightarrow> string) \<Rightarrow> 'v pyobj \<Rightarrow> error + tensor_spec" where
  "get_tensor_spec py_str standardize_dtype x =
     (if length (shape x) < 1 then
        Inl (ValueError
          (''When passing a Python generator to a Keras model, '' @
           ''the arrays returned by the generator '' @
           ''must be at least rank 1. Received: '' @
           py_str (Leaf x) @ '' of rank '' @ str_nat (length (shape x))))
      else
        (let shape' = (shape x)[0 := None];
             dtype' = standardize_dtype (dtype x)
         in if cls x = TfRaggedTensor then Inr (RaggedTensorSpec shape' dtype')
            else if cls x = TfSparseTensor \<or> is_scipy_sparse x then Inr (SparseTensorSpec shape' dtype')
            else Inr (TensorSpec shape' dtype')))"

text \<open>The fields of \<^verbatim>\<open>GeneratorDataAdapter\<close>.\<close>

record 'v adapter =
  generator :: "'v batch chain"
  first_batch :: "'v batch"
  output_signature :: "tensor_spec nest option"

text \<open>
  \<^verbatim>\<open>GeneratorDataAdapter.__init__\<close>: the adapter or the exception raised, and the
  caller's generator after the call.
\<close>

definition GeneratorDataAdapter_init ::
  "('v batch \<Rightarrow> string) \<Rightarrow> 'v batch py_generator \<Rightarrow> (error + 'v adapter) \<times> 'v batch py_generator" where
  "GeneratorDataAdapter_init py_str g = (case peek_and_restore g of
       (Inl e, g') \<Rightarrow> (Inl e, g')
     | (Inr (fb, ch), g') \<Rightarrow>
         (if \<not> isinstance_tuple fb then
            (Inl (ValueError
               (''When passing a Python generator to a Keras model, '' @
                ''the generator must return a tuple, either '' @
                ''(input,) or (inputs, targets) or '' @
                ''(inputs, targets, sample_weights). '' @
                ''Received: '' @ py_str fb)), g')
          else (Inr \<lparr>generator = ch, first_batch = fb, output_signature = None\<rparr>, g')))"

text \<open>\<^verbatim>\<open>_set_tf_output_signature\<close>: the assignment happens only when the traversal returns.\<close>

definition set_tf_output_signature ::
  "('v batch \<Rightarrow> string) \<Rightarrow> (string \<Rightarrow> string) \<Rightarrow> 'v adapter \<Rightarrow> (error + unit) \<times> 'v adapter" where
  "set_tf_output_signature py_str standardize_dtype a =
     (case map_structure (get_tensor_spec py_str standardize_dtype) (first_batch a) of
        Inl e \<Rightarrow> (Inl e, a)
      | Inr sig \<Rightarrow> (Inr (), a\<lparr>output_signature := Some sig\<rparr>))"

text \<open>
  A generator object made from a function whose body is a \<^verbatim>\<open>for\<close> loop over the
  adapter's generator that yields a function of each batch. The generator it walks is
  the adapter's, by reference, so \<^verbatim>\<open>next\<close> on such an object reads and advances the
  adapter. A generator object is finished once its loop has ended or its body has raised.
\<close>

record ('a, 'b) py_iterator =
  per_batch :: "'a \<Rightarrow> error + 'b"
  finished :: bool

definition next_iterator ::
  "('v batch, 'b) py_iterator \<Rightarrow> 'v adapter \<Rightarrow> (error + 'b) \<times> ('v batch, 'b) py_iterator \<times> 'v adapter" where
  "next_iterator it a =
     (if finished it then (Inl StopIteration, it, a)
      else (case next_chain (generator a) of
          (Inl e, c) \<Rightarrow> (Inl e, it\<lparr>finished := True\<rparr>, a\<lparr>generator := c\<rparr>)
        | (Inr b, c) \<Rightarrow> (case per_batch it b of
              Inl e \<Rightarrow> (Inl e, it\<lparr>finished := True\<rparr>, a\<lparr>generator := c\<rparr>)
            | Inr y \<Rightarrow> (Inr y, it, a\<lparr>generator := c\<rparr>))))"

text \<open>The results of \<open>n\<close> successive calls of \<^verbatim>\<open>next\<close> on a generator object.\<close>

fun pulls :: "nat \<Rightarrow> ('v batch, 'b) py_iterator \<Rightarrow> 'v adapter \<Rightarrow> (error + 'b) list" where
  "pulls 0 it a = []"
| "pulls (Suc n) it a = (case next_iterator it a of (r, it', a') \<Rightarrow> r # pulls n it' a')"

text \<open>
  Modelled from the spec: \<^verbatim>\<open>data_adapter_utils.get_numpy_iterator\<close>,
  \<^verbatim>\<open>data_adapter_utils.get_jax_iterator\<close> and \<^verbatim>\<open>data_adapter_utils.get_torch_dataloader\<close>
  are not part of the source file. The spec describes each as a lazy, single-pass
  sequence over the owned generator's batches with an array conversion applied per batch
  by an external helper, without inference, prefetch or buffering. The conversion is a
  parameter.
\<close>

definition data_adapter_utils_get_numpy_iterator :: "('a \<Rightarrow> 'b) \<Rightarrow> ('a, 'b) py_iterator" where
  "data_adapter_utils_get_numpy_iterator convert_to_numpy =
     \<lparr>per_batch = (\<lambda>batch. Inr (convert_to_numpy batch)), finished = False\<rparr>"

definition data_adapter_utils_get_jax_iterator :: "('a \<Rightarrow> 'b) \<Rightarrow> ('a, 'b) py_iterator" where
  "data_adapter_utils_get_jax_iterator convert_to_jax =
     \<lparr>per_batch = (\<lambda>batch. Inr (convert_to_jax batch)), finished = False\<rparr>"

definition data_adapter_utils_get_torch_dataloader :: "('a \<Rightarrow> 'b) \<Rightarrow> ('a, 'b) py_iterator" where
  "data_adapter_utils_get_torch_dataloader convert_to_torch =
     \<lparr>per_batch = (\<lambda>batch. Inr (convert_to_torch batch)), finished = False\<rparr>"

text \<open>
  The accessors that delegate. The argument \<^verbatim>\<open>self.generator\<close> is passed by reference:
  the iterator returned reads it from the adapter.
\<close>

definition get_numpy_iterator ::
  "('v batch \<Rightarrow> 'b) \<Rightarrow> 'v adapter \<Rightarrow> ('v batch, 'b) py_iterator" where
  "get_numpy_iterator convert_to_numpy a = data_adapter_utils_get_numpy_iterator convert_to_numpy"

definition get_jax_iterator ::
  "('v batch \<Rightarrow> 'b) \<Rightarrow> 'v adapter \<Rightarrow> ('v batch, 'b) py_iterator" where
  "get_jax_iterator convert_to_jax a = data_adapter_utils_get_jax_iterator convert_to_jax"

definition get_torch_dataloader ::
  "('v batch \<Rightarrow> 'b) \<Rightarrow> 'v adapter \<Rightarrow> ('v batch, 'b) py_iterator" where
  "get_torch_dataloader convert_to_torch a = data_adapter_utils_get_torch_dataloader convert_to_torch"

text \<open>\<^verbatim>\<open>get_tf_iterator\<close> of \<^verbatim>\<open>get_tf_dataset\<close>: each call makes a new generator object.\<close>

definition get_tf_iterator :: "('v batch, 'v tf_value nest) py_iterator" where
  "get_tf_iterator = \<lparr>per_batch = (\<lambda>batch. map_structure convert_to_tf batch), finished = False\<rparr>"

text \<open>
  The dataset \<^verbatim>\<open>tf.data.Dataset.from_generator(get_tf_iterator, output_signature=...)\<close>
  with \<^verbatim>\<open>prefetch(tf.data.AUTOTUNE)\<close> attached: the arguments it was built from.
\<close>

datatype prefetch_size = AUTOTUNE

record 'v tf_dataset =
  from_generator :: "('v batch, 'v tf_value nest) py_iterator"
  ds_output_signature :: "tensor_spec nest option"
  prefetch :: prefetch_size

definition get_tf_dataset ::
  "('v batch \<Rightarrow> string) \<Rightarrow> (string \<Rightarrow> string) \<Rightarrow> 'v adapter \<Rightarrow> (error + 'v tf_dataset) \<times> 'v adapter" where
  "get_tf_dataset py_str standardize_dtype a =
     (case (if output_signature a = None then set_tf_output_signature py_str standardize_dtype a
            else (Inr (), a)) of
        (Inl e, a') \<Rightarrow> (Inl e, a')
      | (Inr u, a') \<Rightarrow>
          (Inr \<lparr>from_generator = get_tf_iterator,
                ds_output_signature = output_signature a',
                prefetch = AUTOTUNE\<rparr>, a'))"

definition num_batches :: "'v adapter \<Rightarrow> nat option" where
  "num_batches a = None"

definition batch_size :: "'v adapter \<Rightarrow> nat option" where
  "batch_size a = None"

section \<open>Reference definitions and example inputs\<close>

text \<open>
  The batch shapes the spec's data model accepts: a tuple of length one to three. It
  follows the spec's words, to be compared with the check of the constructor.
\<close>

definition spec_accepted_tuple :: "'a nest \<Rightarrow> bool" where
  "spec_accepted_tuple x = (case x of Tuple xs \<Rightarrow> 1 \<le> length xs \<and> length xs \<le> 3 | _ \<Rightarrow> False)"

text \<open>
  The descriptor the spec gives for a field: the shape with the leading dimension replaced
  by unknown, the standardized dtype, and the kind chosen by the field's category.
\<close>

definition spec_descriptor :: "(string \<Rightarrow> string) \<Rightarrow> 'v pyobj \<Rightarrow> tensor_spec" where
  "spec_descriptor standardize_dtype x =
     (if cls x = TfRaggedTensor then RaggedTensorSpec (None # tl (shape x)) (standardize_dtype (dtype x))
      else if cls x = TfSparseTensor \<or> is_scipy_sparse x
        then SparseTensorSpec (None # tl (shape x)) (standardize_dtype (dtype x))
      else TensorSpec (None # tl (shape x)) (standardize_dtype (dtype x)))"

text \<open>The coordinate triple of a sparse matrix: one \<open>[row, col]\<close> pair per stored entry.\<close>

definition coo_triple :: "'v coo_matrix \<Rightarrow> 'v sparse_tensor" where
  "coo_triple c =
     \<lparr>indices = map (\<lambda>(r, k). [r, k]) (zip (row c) (col c)),
      tensor_values = data c,
      dense_shape = coo_shape c\<rparr>"

text \<open>The message of the rank check for a field \<open>x\<close> of rank \<open>0\<close>.\<close>

definition rank0_message :: "('v batch \<Rightarrow> string) \<Rightarrow> 'v pyobj \<Rightarrow> string" where
  "rank0_message py_str x =
     ''When passing a Python generator to a Keras model, the arrays returned by the generator must be at least rank 1. Received: '' @
     py_str (Leaf x) @ '' of rank 0''"

text \<open>The operations on an adapter, and the adapter after running a list of them.\<close>

datatype adapter_op =
    Get_numpy_iterator
  | Get_jax_iterator
  | Get_tf_dataset
  | Get_torch_dataloader
  | Num_batches
  | Batch_size
  | Next_batch

fun run_op :: "('v batch \<Rightarrow> string) \<Rightarrow> (string \<Rightarrow> string) \<Rightarrow> adapter_op \<Rightarrow> 'v adapter \<Rightarrow> 'v adapter" where
  "run_op py_str standardize_dtype Get_tf_dataset a = snd (get_tf_dataset py_str standardize_dtype a)"
| "run_op py_str standardize_dtype Next_batch a = snd (snd (next_iterator get_tf_iterator a))"
| "run_op py_str standardize_dtype opn a = a"

fun run_ops :: "('v batch \<Rightarrow> string) \<Rightarrow> (string \<Rightarrow> string) \<Rightarrow> adapter_op list \<Rightarrow> 'v adapter \<Rightarrow> 'v adapter" where
  "run_ops py_str standardize_dtype [] a = a"
| "run_ops py_str standardize_dtype (opn # ops) a =
     run_ops py_str standardize_dtype ops (run_op py_str standardize_dtype opn a)"

text \<open>
  The scenario of the spec: a generator that yields \<^verbatim>\<open>([[1,2]],[0])\<close> and then
  \<^verbatim>\<open>([[3,4]],[1])\<close>, as NumPy arrays.
\<close>

definition ndarray :: "nat list \<Rightarrow> string \<Rightarrow> int list \<Rightarrow> int pyobj" where
  "ndarray s d xs = \<lparr>cls = OtherClass ''numpy'', shape = map Some s, dtype = d, tocoo = None, buffer = xs\<rparr>"

definition scenario_batch1 :: "int batch" where
  "scenario_batch1 = Tuple [Leaf (ndarray [1, 2] ''int64'' [1, 2]), Leaf (ndarray [1] ''int64'' [0])]"

definition scenario_batch2 :: "int batch" where
  "scenario_batch2 = Tuple [Leaf (ndarray [1, 2] ''int64'' [3, 4]), Leaf (ndarray [1] ''int64'' [1])]"

definition scenario_generator :: "int batch py_generator" where
  "scenario_generator = Yield scenario_batch1 (Yield scenario_batch2 Exhausted)"

text \<open>A stand-in for Python's \<^verbatim>\<open>str\<close> in the examples: it prints the number of leaves.\<close>

definition example_str :: "int batch \<Rightarrow> string" where
  "example_str b = ''<'' @ str_nat (length (flatten b)) @ '' arrays>''"

text \<open>The results of \<open>n\<close> successive calls of \<^verbatim>\<open>get_tf_dataset\<close>, and the adapter afterwards.\<close>

fun get_tf_dataset_times ::
  "('v batch \<Rightarrow> string) \<Rightarrow> (string \<Rightarrow> string) \<Rightarrow> nat \<Rightarrow> 'v adapter \<Rightarrow> (error + 'v tf_dataset) list \<times> 'v adapter" where
  "get_tf_dataset_times py_str standardize_dtype 0 a = ([], a)"
| "get_tf_dataset_times py_str standardize_dtype (Suc n) a =
     (case get_tf_dataset py_str standardize_dtype a of
        (r, a') \<Rightarrow> (case get_tf_dataset_times py_str standardize_dtype n a' of
            (rs, a'') \<Rightarrow> (r # rs, a'')))"

text \<open>Further example inputs: a batch of four fields, a batch with a scalar field, a bare array.\<close>

definition four_field_batch :: "int batch" where
  "four_field_batch =
     Tuple [Leaf (ndarray [1] ''float32'' [0]), Leaf (ndarray [1] ''float32'' [1]),
            Leaf (ndarray [1] ''float32'' [2]), Leaf (ndarray [1] ''float32'' [3])]"

definition scalar_batch :: "int batch" where
  "scalar_batch = Tuple [Leaf (ndarray [1, 2] ''int64'' [1, 2]), Leaf (ndarray [] ''int64'' [7])]"

definition bare_array :: "int batch" where
  "bare_array = Leaf (ndarray [1, 2] ''int64'' [1, 2])"

text \<open>A SciPy matrix in CSR format holding \<open>5\<close> at \<open>(0, 1)\<close> and \<open>6\<close> at \<open>(1, 0)\<close>, and a batch with it.\<close>

definition csr_example :: "int pyobj" where
  "csr_example =
     \<lparr>cls = OtherClass ''scipy.sparse._csr'', shape = [Some 2, Some 2], dtype = ''int64'',
      tocoo = Some \<lparr>row = [0, 1], col = [1, 0], data = [5, 6], coo_shape = [2, 2]\<rparr>,
      buffer = [5, 6]\<rparr>"

definition sparse_batch :: "int batch" where
  "sparse_batch = Tuple [Leaf csr_example, Leaf (ndarray [2] ''int64'' [0, 1])]"

text \<open>
  The per-batch transformation as the spec words it: a field of the sparse-matrix
  convention becomes the sparse tensor of its coordinate triple, any other field passes
  through.
\<close>

definition spec_convert :: "'v pyobj \<Rightarrow> 'v tf_value" where
  "spec_convert x = (case tocoo x of
       Some c \<Rightarrow> (if is_scipy_sparse x then SparseTensor (coo_triple c) else PyObject x)
     | None \<Rightarrow> PyObject x)"

text \<open>The adapters that construction returns on the example generators.\<close>

definition adapter_of :: "int batch \<Rightarrow> int batch py_generator \<Rightarrow> int adapter" where
  "adapter_of b g = \<lparr>generator = \<lparr>pending = [b], source = g\<rparr>, first_batch = b, output_signature = None\<rparr>"

text \<open>The signature and the dataset of the scenario.\<close>

definition scenario_signature :: "tensor_spec nest" where
  "scenario_signature =
     Tuple [Leaf (TensorSpec [None, Some 2] ''int64''), Leaf (TensorSpec [None] ''int64'')]"

definition scenario_dataset :: "int tf_dataset" where
  "scenario_dataset =
     \<lparr>from_generator = get_tf_iterator, ds_output_signature = Some scenario_signature,
      prefetch = AUTOTUNE\<rparr>"

section \<open>Iteration through the chained generator\<close>

lemma nexts_Exhausted: "nexts n Exhausted = replicate n (Inl StopIteration)"
  by (induction n) (simp_all add: next_gen_def)

lemma pulls_finished: "finished it \<Longrightarrow> pulls n it a = replicate n (Inl StopIteration)"
  by (induction n arbitrary: a) (simp_all add: next_iterator_def)

lemma pulls_source:
  "\<not> finished it \<Longrightarrow> per_batch it = (\<lambda>b. Inr (f b)) \<Longrightarrow> pending (generator a) = [] \<Longrightarrow>
   pulls n it a = map (map_sum id f) (nexts n (source (generator a)))"
proof (induction n arbitrary: a)
  case 0
  then show ?case by simp
next
  case (Suc n)
  show ?case
  proof (cases "source (generator a)")
    case Exhausted
    with Suc.prems show ?thesis
      by (simp add: next_iterator_def next_chain_def next_gen_def pulls_finished nexts_Exhausted)
  next
    case (Yield x g)
    with Suc.prems Suc.IH [of "a\<lparr>generator := (generator a)\<lparr>source := g\<rparr>\<rparr>"] show ?thesis
      by (simp add: next_iterator_def next_chain_def next_gen_def)
  qed
qed

lemma pulls_pending:
  "\<not> finished it \<Longrightarrow> per_batch it = (\<lambda>b. Inr (f b)) \<Longrightarrow> generator a = itertools_chain [x] g \<Longrightarrow>
   pulls n it a = map (map_sum id f) (nexts n (Yield x g))"
proof (cases n)
  case 0
  then show ?thesis by simp
next
  case (Suc m)
  assume a: "\<not> finished it" "per_batch it = (\<lambda>b. Inr (f b))" "generator a = itertools_chain [x] g"
  from a pulls_source [of it f "a\<lparr>generator := (generator a)\<lparr>pending := []\<rparr>\<rparr>" m]
  show ?thesis using Suc
    by (simp add: next_iterator_def next_chain_def next_gen_def itertools_chain_def)
qed

lemma map_sum_ident: "map (map_sum id (\<lambda>b. b)) rs = rs"
proof (induction rs)
  case Nil
  show ?case by simp
next
  case (Cons r rs)
  then show ?case by (cases r) simp_all
qed

lemma init_Yield:
  "GeneratorDataAdapter_init py_str (Yield x g) =
     (if \<not> isinstance_tuple x then
        Inl (ValueError
          (''When passing a Python generator to a Keras model, the generator must return a tuple, either (input,) or (inputs, targets) or (inputs, targets, sample_weights). Received: '' @ py_str x))
      else Inr \<lparr>generator = \<lparr>pending = [x], source = g\<rparr>, first_batch = x, output_signature = None\<rparr>, g)"
  by (simp add: GeneratorDataAdapter_init_def peek_and_restore_def next_gen_def itertools_chain_def)

section \<open>Construction and plain iteration\<close>

text \<open>
  Claim C1. For every generator whose first element is a tuple, construction succeeds, and
  the results of any number of \<^verbatim>\<open>next\<close> calls on the plain iterator of the adapter are
  the results of the same number of \<^verbatim>\<open>next\<close> calls on the original generator, each
  batch passed through the per-batch conversion: the same batches in the same order, the
  peeked one once, and exhaustion at the same call. With a conversion that returns its
  argument the two sequences are equal.
\<close>

theorem plain_iteration_yields_original:
  assumes "isinstance_tuple x"
  shows "\<exists>a. GeneratorDataAdapter_init py_str (Yield x g) = (Inr a, g)
           \<and> (\<forall>n. pulls n (get_numpy_iterator convert_to_numpy a) a
                  = map (map_sum id convert_to_numpy) (nexts n (Yield x g)))
           \<and> (\<forall>n. pulls n (get_numpy_iterator (\<lambda>b. b) a) a = nexts n (Yield x g))"
proof -
  let ?a = "\<lparr>generator = \<lparr>pending = [x], source = g\<rparr>, first_batch = x, output_signature = None\<rparr>"
  have i: "GeneratorDataAdapter_init py_str (Yield x g) = (Inr ?a, g)"
    using assms by (simp add: init_Yield)
  have p: "pulls n (get_numpy_iterator convert_to_numpy ?a) ?a
       = map (map_sum id convert_to_numpy) (nexts n (Yield x g))" for n
    by (rule pulls_pending)
       (simp_all add: get_numpy_iterator_def data_adapter_utils_get_numpy_iterator_def itertools_chain_def)
  have "pulls n (get_numpy_iterator (\<lambda>b. b) ?a) ?a = map (map_sum id (\<lambda>b. b)) (nexts n (Yield x g))" for n
    by (rule pulls_pending)
       (simp_all add: get_numpy_iterator_def data_adapter_utils_get_numpy_iterator_def itertools_chain_def)
  then have q: "pulls n (get_numpy_iterator (\<lambda>b. b) ?a) ?a = nexts n (Yield x g)" for n
    by (simp only: map_sum_ident)
  from i p q show ?thesis by blast
qed

theorem plain_iteration_yields_original_witness:
  "isinstance_tuple scenario_batch1
   \<and> (\<exists>a. GeneratorDataAdapter_init example_str scenario_generator = (Inr a, Yield scenario_batch2 Exhausted)
        \<and> pulls 3 (get_numpy_iterator (\<lambda>b. b) a) a = [Inr scenario_batch1, Inr scenario_batch2, Inl StopIteration])"
proof -
  have t: "isinstance_tuple scenario_batch1" by (simp add: scenario_batch1_def)
  have n: "nexts 3 (Yield scenario_batch1 (Yield scenario_batch2 Exhausted)) = [Inr scenario_batch1, Inr scenario_batch2, Inl StopIteration]"
    by (simp add: numeral_3_eq_3 next_gen_def)
  from plain_iteration_yields_original [OF t, of example_str "Yield scenario_batch2 Exhausted" "\<lambda>b. b"] t n
  show ?thesis unfolding scenario_generator_def by auto
qed

text \<open>
  Claim C8. \<^verbatim>\<open>num_batches\<close> and \<^verbatim>\<open>batch_size\<close> are \<^verbatim>\<open>None\<close> for every adapter,
  whatever its generator holds and however far it has been consumed.
\<close>

theorem num_batches_and_batch_size_unknown:
  "num_batches a = None \<and> batch_size a = None"
  by (simp add: num_batches_def batch_size_def)

text \<open>
  Claim C9. On a generator that yields nothing, construction raises the
  \<^verbatim>\<open>StopIteration\<close> of the first \<^verbatim>\<open>next\<close> call, not the validation error, and
  returns no adapter.
\<close>

theorem empty_generator_propagates_exhaustion:
  "GeneratorDataAdapter_init py_str Exhausted = (Inl StopIteration, Exhausted)"
  by (simp add: GeneratorDataAdapter_init_def peek_and_restore_def next_gen_def)

text \<open>
  Claim C7. Construction calls \<^verbatim>\<open>next\<close> on the caller's generator once and never
  again: the generator afterwards is the one a single \<^verbatim>\<open>next\<close> leaves, whether the
  check then passes or fails. When the first element is not a tuple, construction fails
  with the validation error; when it is, the adapter's chain holds the peeked element and
  the generator advanced by that one element.
\<close>

theorem construction_advances_generator_once:
  "snd (GeneratorDataAdapter_init py_str gen) = snd (next_gen gen)
   \<and> snd (GeneratorDataAdapter_init py_str (Yield x g)) = g
   \<and> (\<not> isinstance_tuple x \<longrightarrow>
        fst (GeneratorDataAdapter_init py_str (Yield x g)) =
          Inl (ValueError
            (''When passing a Python generator to a Keras model, the generator must return a tuple, either (input,) or (inputs, targets) or (inputs, targets, sample_weights). Received: '' @ py_str x)))
   \<and> (isinstance_tuple x \<longrightarrow>
        (\<exists>a. fst (GeneratorDataAdapter_init py_str (Yield x g)) = Inr a
           \<and> generator a = \<lparr>pending = [x], source = g\<rparr>))"
proof -
  have "snd (GeneratorDataAdapter_init py_str gen) = snd (next_gen gen)"
    by (cases gen) (simp_all add: GeneratorDataAdapter_init_def peek_and_restore_def next_gen_def)
  then show ?thesis by (simp add: init_Yield)
qed

theorem construction_advances_generator_once_witness:
  "\<not> isinstance_tuple bare_array
   \<and> GeneratorDataAdapter_init example_str (Yield bare_array (Yield scenario_batch2 Exhausted)) =
       (Inl (ValueError
          ''When passing a Python generator to a Keras model, the generator must return a tuple, either (input,) or (inputs, targets) or (inputs, targets, sample_weights). Received: <1 arrays>''),
        Yield scenario_batch2 Exhausted)"
proof -
  have t: "\<not> isinstance_tuple bare_array" by (simp add: bare_array_def)
  have s: "example_str bare_array = ''<1 arrays>''" by (simp add: example_str_def bare_array_def)
  from construction_advances_generator_once
         [of example_str "Yield bare_array (Yield scenario_batch2 Exhausted)" bare_array "Yield scenario_batch2 Exhausted"] t s
  show ?thesis by (simp add: prod_eq_iff next_gen_def)
qed

text \<open>
  Claim C2, as stated, fails: a tuple of four fields is none of the three accepted shapes,
  and construction succeeds on it.
\<close>

theorem four_tuple_is_accepted:
  "\<not> spec_accepted_tuple four_field_batch
   \<and> GeneratorDataAdapter_init example_str (Yield four_field_batch Exhausted) =
       (Inr \<lparr>generator = \<lparr>pending = [four_field_batch], source = Exhausted\<rparr>,
             first_batch = four_field_batch, output_signature = None\<rparr>, Exhausted)"
  by (simp add: spec_accepted_tuple_def four_field_batch_def init_Yield)

text \<open>
  Claim C2, amended. Construction fails with a validation error if and only if the
  generator yields a first element that is not a tuple, of whatever length; the message
  lists the three accepted tuple shapes and ends with the received value. For every first
  element that is a tuple no validation error is raised and the adapter is returned.
\<close>

theorem construction_rejects_exactly_non_tuples:
  "((\<exists>m. fst (GeneratorDataAdapter_init py_str gen) = Inl (ValueError m))
      = (\<exists>x g. gen = Yield x g \<and> \<not> isinstance_tuple x))
   \<and> (\<not> isinstance_tuple x \<longrightarrow>
        fst (GeneratorDataAdapter_init py_str (Yield x g)) =
          Inl (ValueError
            (''When passing a Python generator to a Keras model, the generator must return a tuple, either (input,) or (inputs, targets) or (inputs, targets, sample_weights). Received: '' @ py_str x)))
   \<and> (isinstance_tuple x \<longrightarrow>
        fst (GeneratorDataAdapter_init py_str (Yield x g)) =
          Inr \<lparr>generator = \<lparr>pending = [x], source = g\<rparr>, first_batch = x, output_signature = None\<rparr>)"
proof -
  have "(\<exists>m. fst (GeneratorDataAdapter_init py_str gen) = Inl (ValueError m))
      = (\<exists>x g. gen = Yield x g \<and> \<not> isinstance_tuple x)"
  proof (cases gen)
    case Exhausted
    then show ?thesis
      by (simp add: GeneratorDataAdapter_init_def peek_and_restore_def next_gen_def)
  next
    case (Yield y h)
    then show ?thesis by (simp add: init_Yield)
  qed
  then show ?thesis by (simp add: init_Yield)
qed

theorem construction_rejects_exactly_non_tuples_witness:
  "\<not> isinstance_tuple bare_array
   \<and> fst (GeneratorDataAdapter_init example_str (Yield bare_array Exhausted)) =
       Inl (ValueError
          ''When passing a Python generator to a Keras model, the generator must return a tuple, either (input,) or (inputs, targets) or (inputs, targets, sample_weights). Received: <1 arrays>'')
   \<and> isinstance_tuple four_field_batch
   \<and> fst (GeneratorDataAdapter_init example_str (Yield four_field_batch Exhausted)) =
       Inr \<lparr>generator = \<lparr>pending = [four_field_batch], source = Exhausted\<rparr>,
            first_batch = four_field_batch, output_signature = None\<rparr>"
proof -
  have t: "\<not> isinstance_tuple bare_array" by (simp add: bare_array_def)
  have s: "example_str bare_array = ''<1 arrays>''" by (simp add: example_str_def bare_array_def)
  have u: "isinstance_tuple four_field_batch" by (simp add: four_field_batch_def)
  from construction_rejects_exactly_non_tuples [of example_str "Yield bare_array Exhausted" bare_array Exhausted]
       construction_rejects_exactly_non_tuples [of example_str "Yield four_field_batch Exhausted" four_field_batch Exhausted]
       t s u
  show ?thesis by simp
qed

section \<open>The output signature\<close>

lemma find_append_case:
  "find P (xs @ ys) = (case find P xs of None \<Rightarrow> find P ys | Some x \<Rightarrow> Some x)"
  by (induction xs) auto

lemma map_structure_find:
  "map_structure f b = (case find (\<lambda>x. isl (f x)) (flatten b) of
       Some x \<Rightarrow> Inl (projl (f x)) | None \<Rightarrow> Inr (map_nest (\<lambda>x. projr (f x)) b))"
  "map_structures f bs = (case find (\<lambda>x. isl (f x)) (flattens bs) of
       Some x \<Rightarrow> Inl (projl (f x)) | None \<Rightarrow> Inr (map (map_nest (\<lambda>x. projr (f x))) bs))"
  by (induction f b and f bs rule: map_structure_map_structures.induct)
     (auto simp: find_append_case split: option.splits sum.splits)

lemma map_structure_total:
  "(\<forall>x \<in> set (flatten b). f x = Inr (g x)) \<Longrightarrow> map_structure f b = Inr (map_nest g b)"
  "(\<forall>x \<in> set (flattens bs). f x = Inr (g x)) \<Longrightarrow> map_structures f bs = Inr (map (map_nest g) bs)"
  by (induction f b and f bs rule: map_structure_map_structures.induct) auto

lemma update_leading_dim: "s \<noteq> [] \<Longrightarrow> s[0 := None] = None # tl s"
  by (cases s) simp_all

lemma get_tensor_spec_ok:
  "1 \<le> length (shape x) \<Longrightarrow> get_tensor_spec py_str std x = Inr (spec_descriptor std x)"
  by (cases "shape x") (simp_all add: get_tensor_spec_def spec_descriptor_def Let_def)

lemma get_tensor_spec_rank0:
  "length (shape x) < 1 \<Longrightarrow> get_tensor_spec py_str std x = Inl (ValueError (rank0_message py_str x))"
  by (simp add: get_tensor_spec_def rank0_message_def)

lemma isl_get_tensor_spec: "isl (get_tensor_spec py_str std x) = (length (shape x) < 1)"
proof (cases "length (shape x) < 1")
  case True
  then show ?thesis by (simp only: get_tensor_spec_rank0) simp
next
  case False
  then have "1 \<le> length (shape x)" by (cases "shape x") simp_all
  then have "get_tensor_spec py_str std x = Inr (spec_descriptor std x)" by (rule get_tensor_spec_ok)
  with False show ?thesis by simp
qed

lemma signature_of_batch:
  "map_structure (get_tensor_spec py_str std) b =
     (case find (\<lambda>x. length (shape x) < 1) (flatten b) of
        Some x \<Rightarrow> Inl (ValueError (rank0_message py_str x))
      | None \<Rightarrow> Inr (map_nest (spec_descriptor std) b))"
proof (cases "find (\<lambda>x. length (shape x) < 1) (flatten b)")
  case None
  have "\<forall>x \<in> set (flatten b). get_tensor_spec py_str std x = Inr (spec_descriptor std x)"
  proof
    fix x assume "x \<in> set (flatten b)"
    with None have "\<not> length (shape x) < 1" by (simp only: find_None_iff) blast
    then have "1 \<le> length (shape x)" by (cases "shape x") simp_all
    then show "get_tensor_spec py_str std x = Inr (spec_descriptor std x)" by (rule get_tensor_spec_ok)
  qed
  then show ?thesis using None by (simp add: map_structure_total)
next
  case (Some x)
  then have "length (shape x) < 1" by (auto simp: find_Some_iff)
  then show ?thesis using Some
    by (simp add: map_structure_find isl_get_tensor_spec get_tensor_spec_rank0)
qed

lemma tf_module_not_scipy:
  "cls x = TfRaggedTensor \<or> cls x = TfSparseTensor \<Longrightarrow> \<not> is_scipy_sparse x"
  by (auto simp: is_scipy_sparse_def startswith_def)

lemma get_tf_dataset_uncached:
  "output_signature a = None \<Longrightarrow>
   get_tf_dataset py_str std a =
     (case find (\<lambda>x. length (shape x) < 1) (flatten (first_batch a)) of
        Some x \<Rightarrow> (Inl (ValueError (rank0_message py_str x)), a)
      | None \<Rightarrow>
          (Inr \<lparr>from_generator = get_tf_iterator,
                ds_output_signature = Some (map_nest (spec_descriptor std) (first_batch a)),
                prefetch = AUTOTUNE\<rparr>,
           a\<lparr>output_signature := Some (map_nest (spec_descriptor std) (first_batch a))\<rparr>))"
  by (simp add: get_tf_dataset_def set_tf_output_signature_def signature_of_batch split: option.splits)

lemma get_tf_dataset_cached:
  "output_signature a = Some sig \<Longrightarrow>
   get_tf_dataset py_str std a =
     (Inr \<lparr>from_generator = get_tf_iterator, ds_output_signature = Some sig, prefetch = AUTOTUNE\<rparr>, a)"
  by (simp add: get_tf_dataset_def)

lemma all_ranked_find:
  "(\<forall>x \<in> set xs. 1 \<le> length (shape x)) \<Longrightarrow> find (\<lambda>x. length (shape x) < 1) xs = None"
  by (induction xs) auto

text \<open>
  Claim C3. For a field of rank at least one, \<^verbatim>\<open>get_tensor_spec\<close> returns a descriptor
  whose shape is the field's shape with \<^verbatim>\<open>None\<close> in place of the leading dimension and
  whose dtype is the standardized dtype of the field; the descriptor is ragged for a
  ragged tensor, sparse for a TensorFlow sparse tensor or an object of the SciPy sparse
  convention, and dense otherwise. When every field of the first batch has rank at least
  one, the signature of the dataset is the first batch with each field replaced by its
  descriptor. For a first batch of an array of shape \<open>(n, 2)\<close> and an array of shape
  \<open>(n)\<close> the shapes of the signature are \<open>(None, 2)\<close> and \<open>(None)\<close>.
\<close>

theorem signature_inference_descriptors:
  "(1 \<le> length (shape x) \<longrightarrow>
      get_tensor_spec py_str std x = Inr (spec_descriptor std x)
      \<and> spec_shape (spec_descriptor std x) = None # tl (shape x)
      \<and> spec_dtype (spec_descriptor std x) = std (dtype x)
      \<and> (cls x = TfRaggedTensor \<longrightarrow>
            spec_descriptor std x = RaggedTensorSpec (None # tl (shape x)) (std (dtype x)))
      \<and> (cls x = TfSparseTensor \<or> is_scipy_sparse x \<longrightarrow>
            spec_descriptor std x = SparseTensorSpec (None # tl (shape x)) (std (dtype x)))
      \<and> (cls x \<noteq> TfRaggedTensor \<and> cls x \<noteq> TfSparseTensor \<and> \<not> is_scipy_sparse x \<longrightarrow>
            spec_descriptor std x = TensorSpec (None # tl (shape x)) (std (dtype x))))
   \<and> (output_signature a = None \<and> (\<forall>y \<in> set (flatten (first_batch a)). 1 \<le> length (shape y)) \<longrightarrow>
        get_tf_dataset py_str std a =
          (Inr \<lparr>from_generator = get_tf_iterator,
                ds_output_signature = Some (map_nest (spec_descriptor std) (first_batch a)),
                prefetch = AUTOTUNE\<rparr>,
           a\<lparr>output_signature := Some (map_nest (spec_descriptor std) (first_batch a))\<rparr>))
   \<and> (output_signature a = None \<and> first_batch a = Tuple [Leaf x1, Leaf x2]
        \<and> shape x1 = [Some n, Some 2] \<and> shape x2 = [Some n] \<longrightarrow>
        (\<exists>ds s1 s2. fst (get_tf_dataset py_str std a) = Inr ds
           \<and> ds_output_signature ds = Some (Tuple [Leaf s1, Leaf s2])
           \<and> spec_shape s1 = [None, Some 2] \<and> spec_shape s2 = [None]))"
proof -
  have d: "spec_shape (spec_descriptor std z) = None # tl (shape z)
         \<and> spec_dtype (spec_descriptor std z) = std (dtype z)" for z :: "'a pyobj"
    by (simp add: spec_descriptor_def)
  have k: "(cls x = TfRaggedTensor \<longrightarrow>
            spec_descriptor std x = RaggedTensorSpec (None # tl (shape x)) (std (dtype x)))
      \<and> (cls x = TfSparseTensor \<or> is_scipy_sparse x \<longrightarrow>
            spec_descriptor std x = SparseTensorSpec (None # tl (shape x)) (std (dtype x)))
      \<and> (cls x \<noteq> TfRaggedTensor \<and> cls x \<noteq> TfSparseTensor \<and> \<not> is_scipy_sparse x \<longrightarrow>
            spec_descriptor std x = TensorSpec (None # tl (shape x)) (std (dtype x)))"
    using tf_module_not_scipy [of x] by (auto simp: spec_descriptor_def)
  have b: "get_tf_dataset py_str std a =
          (Inr \<lparr>from_generator = get_tf_iterator,
                ds_output_signature = Some (map_nest (spec_descriptor std) (first_batch a)),
                prefetch = AUTOTUNE\<rparr>,
           a\<lparr>output_signature := Some (map_nest (spec_descriptor std) (first_batch a))\<rparr>)"
    if "output_signature a = None" "\<forall>y \<in> set (flatten (first_batch a)). 1 \<le> length (shape y)"
  proof -
    from that(2) have "find (\<lambda>x. length (shape x) < 1) (flatten (first_batch a)) = None"
      by (rule all_ranked_find)
    with that(1) show ?thesis by (simp only: get_tf_dataset_uncached option.case)
  qed
  have s: "\<exists>ds s1 s2. fst (get_tf_dataset py_str std a) = Inr ds
           \<and> ds_output_signature ds = Some (Tuple [Leaf s1, Leaf s2])
           \<and> spec_shape s1 = [None, Some 2] \<and> spec_shape s2 = [None]"
    if h: "output_signature a = None" "first_batch a = Tuple [Leaf x1, Leaf x2]"
          "shape x1 = [Some n, Some 2]" "shape x2 = [Some n]"
  proof -
    from h have "\<forall>y \<in> set (flatten (first_batch a)). 1 \<le> length (shape y)" by simp
    with h(1) have "get_tf_dataset py_str std a =
          (Inr \<lparr>from_generator = get_tf_iterator,
                ds_output_signature = Some (map_nest (spec_descriptor std) (first_batch a)),
                prefetch = AUTOTUNE\<rparr>,
           a\<lparr>output_signature := Some (map_nest (spec_descriptor std) (first_batch a))\<rparr>)"
      by (rule b)
    with h d [of x1] d [of x2] show ?thesis by simp
  qed
  from get_tensor_spec_ok [of x py_str std] d [of x] k b s show ?thesis by blast
qed


theorem signature_inference_descriptors_witness:
  "1 \<le> length (shape (ndarray [1, 2] ''int64'' [1, 2]))
   \<and> get_tensor_spec example_str (\<lambda>d. d) (ndarray [1, 2] ''int64'' [1, 2]) = Inr (TensorSpec [None, Some 2] ''int64'')
   \<and> get_tensor_spec example_str (\<lambda>d. d) csr_example = Inr (SparseTensorSpec [None, Some 2] ''int64'')
   \<and> get_tf_dataset example_str (\<lambda>d. d) (adapter_of scenario_batch1 (Yield scenario_batch2 Exhausted)) =
       (Inr \<lparr>from_generator = get_tf_iterator,
             ds_output_signature = Some (Tuple [Leaf (TensorSpec [None, Some 2] ''int64''), Leaf (TensorSpec [None] ''int64'')]),
             prefetch = AUTOTUNE\<rparr>,
        (adapter_of scenario_batch1 (Yield scenario_batch2 Exhausted))
          \<lparr>output_signature := Some (Tuple [Leaf (TensorSpec [None, Some 2] ''int64''), Leaf (TensorSpec [None] ''int64'')])\<rparr>)"
proof -
  let ?x = "ndarray [1, 2] ''int64'' [1, 2]"
  let ?a = "adapter_of scenario_batch1 (Yield scenario_batch2 Exhausted)"
  have r: "1 \<le> length (shape ?x)" "1 \<le> length (shape csr_example)"
    by (simp_all add: ndarray_def csr_example_def)
  have sp: "is_scipy_sparse csr_example"
    by (simp add: is_scipy_sparse_def startswith_def csr_example_def)
  have h: "output_signature ?a = None \<and> (\<forall>y \<in> set (flatten (first_batch ?a)). 1 \<le> length (shape y))"
    by (simp add: adapter_of_def scenario_batch1_def ndarray_def)
  have n: "cls ?x \<noteq> TfRaggedTensor \<and> cls ?x \<noteq> TfSparseTensor \<and> \<not> is_scipy_sparse ?x"
    by (simp add: ndarray_def is_scipy_sparse_def)
  have m: "map_nest (spec_descriptor (\<lambda>d. d)) (first_batch ?a)
     = Tuple [Leaf (TensorSpec [None, Some 2] ''int64''), Leaf (TensorSpec [None] ''int64'')]"
    by (simp add: adapter_of_def scenario_batch1_def ndarray_def spec_descriptor_def is_scipy_sparse_def)
  from signature_inference_descriptors [of ?x example_str "\<lambda>d. d" ?a] r(1) h n m
  have 1: "get_tensor_spec example_str (\<lambda>d. d) ?x = Inr (TensorSpec (None # tl (shape ?x)) (dtype ?x))"
    and 2: "get_tf_dataset example_str (\<lambda>d. d) ?a =
       (Inr \<lparr>from_generator = get_tf_iterator,
             ds_output_signature = Some (Tuple [Leaf (TensorSpec [None, Some 2] ''int64''), Leaf (TensorSpec [None] ''int64'')]),
             prefetch = AUTOTUNE\<rparr>,
        ?a\<lparr>output_signature := Some (Tuple [Leaf (TensorSpec [None, Some 2] ''int64''), Leaf (TensorSpec [None] ''int64'')])\<rparr>)"
    by simp_all
  from signature_inference_descriptors [of csr_example example_str "\<lambda>d. d"] r(2) sp
  have 3: "get_tensor_spec example_str (\<lambda>d. d) csr_example
      = Inr (SparseTensorSpec (None # tl (shape csr_example)) (dtype csr_example))"
    by simp
  have 4: "None # tl (shape ?x) = [None, Some 2]" "dtype ?x = ''int64''"
    "None # tl (shape csr_example) = [None, Some 2]" "dtype csr_example = ''int64''"
    by (simp_all add: ndarray_def csr_example_def)
  from r(1) 1 2 3 4 show ?thesis by simp
qed

section \<open>Fields of rank zero\<close>

lemma first_rank0_field:
  "x0 \<in> set xs \<Longrightarrow> length (shape x0) = 0 \<Longrightarrow>
   \<exists>x. find (\<lambda>x. length (shape x) < 1) xs = Some x \<and> x \<in> set xs \<and> length (shape x) = 0"
proof (induction xs)
  case Nil
  then show ?case by simp
next
  case (Cons y ys)
  then show ?case by (cases "length (shape y) < 1") auto
qed

lemma next_numpy_first:
  "generator a = \<lparr>pending = [b], source = g\<rparr> \<Longrightarrow>
   next_iterator (get_numpy_iterator conv a) a =
     (Inr (conv b), get_numpy_iterator conv a, a\<lparr>generator := \<lparr>pending = [], source = g\<rparr>\<rparr>)"
  by (simp add: next_iterator_def next_chain_def get_numpy_iterator_def
      data_adapter_utils_get_numpy_iterator_def)

text \<open>
  Claim C4. When the first batch is a tuple that contains a field of rank \<open>0\<close>,
  construction succeeds; \<^verbatim>\<open>get_tf_dataset\<close> on the adapter fails with the validation
  error whose message names a rank-0 field of the batch and ends in \<^verbatim>\<open>of rank 0\<close>; and
  the plain iterator of the same adapter yields the batches of the generator, the first
  batch included. The rank check is made by the signature computation of the dataset path
  alone.
\<close>

theorem rank0_field_fails_only_on_dataset_path:
  assumes "x0 \<in> set (flatten (Tuple xs))" and "length (shape x0) = 0"
  shows "\<exists>a x. GeneratorDataAdapter_init py_str (Yield (Tuple xs) g) = (Inr a, g)
      \<and> x \<in> set (flatten (Tuple xs)) \<and> length (shape x) = 0
      \<and> get_tf_dataset py_str std a = (Inl (ValueError (rank0_message py_str x)), a)
      \<and> output_signature a = None
      \<and> next_iterator (get_numpy_iterator conv a) a =
          (Inr (conv (Tuple xs)), get_numpy_iterator conv a,
           a\<lparr>generator := \<lparr>pending = [], source = g\<rparr>\<rparr>)
      \<and> (\<forall>n. pulls n (get_numpy_iterator conv a) a
             = map (map_sum id conv) (nexts n (Yield (Tuple xs) g)))"
proof -
  let ?a = "\<lparr>generator = \<lparr>pending = [Tuple xs], source = g\<rparr>, first_batch = Tuple xs,
             output_signature = None\<rparr>"
  from first_rank0_field [OF assms] obtain x where
    x: "find (\<lambda>x. length (shape x) < 1) (flatten (Tuple xs)) = Some x"
       "x \<in> set (flatten (Tuple xs))" "length (shape x) = 0"
    by blast
  have i: "GeneratorDataAdapter_init py_str (Yield (Tuple xs) g) = (Inr ?a, g)"
    by (simp add: init_Yield)
  have "output_signature ?a = None" by simp
  then have "get_tf_dataset py_str std ?a =
     (case find (\<lambda>x. length (shape x) < 1) (flatten (first_batch ?a)) of
        Some x \<Rightarrow> (Inl (ValueError (rank0_message py_str x)), ?a)
      | None \<Rightarrow>
          (Inr \<lparr>from_generator = get_tf_iterator,
                ds_output_signature = Some (map_nest (spec_descriptor std) (first_batch ?a)),
                prefetch = AUTOTUNE\<rparr>,
           ?a\<lparr>output_signature := Some (map_nest (spec_descriptor std) (first_batch ?a))\<rparr>))"
    by (rule get_tf_dataset_uncached)
  with x(1) have d: "get_tf_dataset py_str std ?a = (Inl (ValueError (rank0_message py_str x)), ?a)"
    by simp
  have n: "next_iterator (get_numpy_iterator conv ?a) ?a =
          (Inr (conv (Tuple xs)), get_numpy_iterator conv ?a,
           ?a\<lparr>generator := \<lparr>pending = [], source = g\<rparr>\<rparr>)"
    by (rule next_numpy_first) simp
  have p: "pulls n (get_numpy_iterator conv ?a) ?a
       = map (map_sum id conv) (nexts n (Yield (Tuple xs) g))" for n
    by (rule pulls_pending)
       (simp_all add: get_numpy_iterator_def data_adapter_utils_get_numpy_iterator_def itertools_chain_def)
  have o: "output_signature ?a = None" by simp
  from i x(2,3) d o n p show ?thesis by blast
qed

theorem rank0_field_fails_only_on_dataset_path_witness:
  "ndarray [] ''int64'' [7] \<in> set (flatten scalar_batch)
   \<and> length (shape (ndarray [] ''int64'' [7])) = 0
   \<and> GeneratorDataAdapter_init example_str (Yield scalar_batch Exhausted) =
        (Inr (adapter_of scalar_batch Exhausted), Exhausted)
   \<and> get_tf_dataset example_str (\<lambda>d. d) (adapter_of scalar_batch Exhausted) =
        (Inl (ValueError
           ''When passing a Python generator to a Keras model, the arrays returned by the generator must be at least rank 1. Received: <1 arrays> of rank 0''),
         adapter_of scalar_batch Exhausted)
   \<and> pulls 2 (get_numpy_iterator (\<lambda>b. b) (adapter_of scalar_batch Exhausted)) (adapter_of scalar_batch Exhausted)
        = [Inr scalar_batch, Inl StopIteration]"
proof -
  let ?x = "ndarray [] ''int64'' [7]"
  have m: "?x \<in> set (flatten scalar_batch)" by (simp add: scalar_batch_def)
  have r: "length (shape ?x) = 0" by (simp add: ndarray_def)
  have t: "scalar_batch = Tuple [Leaf (ndarray [1, 2] ''int64'' [1, 2]), Leaf ?x]"
    by (simp add: scalar_batch_def)
  have u: "\<And>y. y \<in> set (flatten scalar_batch) \<Longrightarrow> length (shape y) = 0 \<Longrightarrow> y = ?x"
    by (auto simp: scalar_batch_def ndarray_def)
  have s: "example_str (Leaf ?x) = ''<1 arrays>''" by (simp add: example_str_def)
  have m': "?x \<in> set (flatten (Tuple [Leaf (ndarray [1, 2] ''int64'' [1, 2]), Leaf ?x]))"
    by simp
  note th = rank0_field_fails_only_on_dataset_path
         [of ?x "[Leaf (ndarray [1, 2] ''int64'' [1, 2]), Leaf ?x]" example_str Exhausted "\<lambda>d. d" "\<lambda>b. b",
          OF m' r, folded t]
  from th obtain a x where
    a: "GeneratorDataAdapter_init example_str (Yield scalar_batch Exhausted) = (Inr a, Exhausted)"
       "x \<in> set (flatten scalar_batch)" "length (shape x) = 0"
       "get_tf_dataset example_str (\<lambda>d. d) a = (Inl (ValueError (rank0_message example_str x)), a)"
       "\<forall>n. pulls n (get_numpy_iterator (\<lambda>b. b) a) a
             = map (map_sum id (\<lambda>b. b)) (nexts n (Yield scalar_batch Exhausted))"
    by blast
  from a(2,3) u have x: "x = ?x" by blast
  have "GeneratorDataAdapter_init example_str (Yield scalar_batch Exhausted)
      = (Inr (adapter_of scalar_batch Exhausted), Exhausted)"
    by (simp add: init_Yield t adapter_of_def)
  with a(1) have e: "a = adapter_of scalar_batch Exhausted" by simp
  have msg: "rank0_message example_str ?x =
      ''When passing a Python generator to a Keras model, the arrays returned by the generator must be at least rank 1. Received: <1 arrays> of rank 0''"
    by (simp add: rank0_message_def s)
  have nx: "map (map_sum id (\<lambda>b. b)) (nexts 2 (Yield scalar_batch Exhausted))
     = [Inr scalar_batch, Inl StopIteration]"
    by (simp add: numeral_2_eq_2 next_gen_def)
  from a(4) x e msg have 1: "get_tf_dataset example_str (\<lambda>d. d) (adapter_of scalar_batch Exhausted) =
        (Inl (ValueError
           ''When passing a Python generator to a Keras model, the arrays returned by the generator must be at least rank 1. Received: <1 arrays> of rank 0''),
         adapter_of scalar_batch Exhausted)"
    by (simp only:)
  from a(5) e nx have 2: "pulls 2 (get_numpy_iterator (\<lambda>b. b) (adapter_of scalar_batch Exhausted)) (adapter_of scalar_batch Exhausted)
        = [Inr scalar_batch, Inl StopIteration]"
    by (simp only:)
  from a(1) e have 3: "GeneratorDataAdapter_init example_str (Yield scalar_batch Exhausted) =
        (Inr (adapter_of scalar_batch Exhausted), Exhausted)"
    by (simp only:)
  from m r 1 2 3 show ?thesis by blast
qed

lemma get_tf_dataset_failure:
  assumes "get_tf_dataset py_str std a = (Inl e, a')"
  shows "a' = a \<and> output_signature a = None
     \<and> (\<exists>x. find (\<lambda>x. length (shape x) < 1) (flatten (first_batch a)) = Some x
            \<and> e = ValueError (rank0_message py_str x))"
proof (cases "output_signature a")
  case None
  from get_tf_dataset_uncached [OF None, of py_str std] assms show ?thesis
    using None by (auto split: option.splits)
next
  case (Some sig)
  from get_tf_dataset_cached [OF Some, of py_str std] assms show ?thesis by simp
qed

lemma get_tf_dataset_times_failure:
  "get_tf_dataset py_str std a = (Inl e, a) \<Longrightarrow>
   get_tf_dataset_times py_str std n a = (replicate n (Inl e), a)"
  by (induction n) simp_all

text \<open>
  Claim C10. When \<^verbatim>\<open>get_tf_dataset\<close> fails, the failure is the rank-0 validation error
  of the signature computation, the adapter is unchanged and its cached signature is still
  unset, so the next call, and every call after it, computes the signature again and
  raises the same error.
\<close>

theorem failed_signature_is_not_cached:
  assumes "get_tf_dataset py_str std a = (Inl e, a')"
  shows "a' = a \<and> output_signature a' = None
     \<and> (\<exists>x \<in> set (flatten (first_batch a)). length (shape x) = 0
            \<and> e = ValueError (rank0_message py_str x))
     \<and> get_tf_dataset py_str std a' = (Inl e, a')
     \<and> (\<forall>n. get_tf_dataset_times py_str std n a' = (replicate n (Inl e), a'))"
proof -
  from get_tf_dataset_failure [OF assms] obtain x where
    f: "a' = a" "output_signature a = None"
       "find (\<lambda>x. length (shape x) < 1) (flatten (first_batch a)) = Some x"
       "e = ValueError (rank0_message py_str x)"
    by blast
  from f(3) have x: "x \<in> set (flatten (first_batch a))" "length (shape x) = 0"
    by (auto simp: find_Some_iff in_set_conv_nth)
  from assms f(1) have r: "get_tf_dataset py_str std a = (Inl e, a)" by simp
  then have "get_tf_dataset_times py_str std n a = (replicate n (Inl e), a)" for n
    by (rule get_tf_dataset_times_failure)
  with f(1,2,4) x r show ?thesis by blast
qed

theorem failed_signature_is_not_cached_witness:
  "get_tf_dataset example_str (\<lambda>d. d) (adapter_of scalar_batch Exhausted) =
     (Inl (ValueError (rank0_message example_str (ndarray [] ''int64'' [7]))), adapter_of scalar_batch Exhausted)
   \<and> output_signature (adapter_of scalar_batch Exhausted) = None
   \<and> get_tf_dataset_times example_str (\<lambda>d. d) 3 (adapter_of scalar_batch Exhausted) =
       ([Inl (ValueError (rank0_message example_str (ndarray [] ''int64'' [7]))),
         Inl (ValueError (rank0_message example_str (ndarray [] ''int64'' [7]))),
         Inl (ValueError (rank0_message example_str (ndarray [] ''int64'' [7])))],
        adapter_of scalar_batch Exhausted)"
proof -
  let ?a = "adapter_of scalar_batch Exhausted"
  let ?e = "ValueError (rank0_message example_str (ndarray [] ''int64'' [7]))"
  have n: "output_signature ?a = None" by (simp add: adapter_of_def)
  have f: "find (\<lambda>x. length (shape x) < 1) (flatten (first_batch ?a)) = Some (ndarray [] ''int64'' [7])"
    by (simp add: adapter_of_def scalar_batch_def ndarray_def)
  have g: "get_tf_dataset example_str (\<lambda>d. d) ?a = (Inl ?e, ?a)"
    by (simp only: get_tf_dataset_uncached [OF n] f option.case)
  from failed_signature_is_not_cached [OF g]
  have "get_tf_dataset_times example_str (\<lambda>d. d) 3 ?a = (replicate 3 (Inl ?e), ?a)" by blast
  then have "get_tf_dataset_times example_str (\<lambda>d. d) 3 ?a = ([Inl ?e, Inl ?e, Inl ?e], ?a)"
    by (simp only: numeral_3_eq_3 replicate.simps)
  with g n show ?thesis by blast
qed

section \<open>The cached signature\<close>

lemma next_iterator_signature:
  "output_signature (snd (snd (next_iterator it a))) = output_signature a"
  by (simp add: next_iterator_def split: prod.splits sum.splits)

lemma run_op_cached:
  "output_signature a = Some sig \<Longrightarrow> output_signature (run_op py_str std opn a) = Some sig"
  by (cases opn) (simp_all add: get_tf_dataset_cached next_iterator_signature)

lemma run_ops_cached:
  "output_signature a = Some sig \<Longrightarrow> output_signature (run_ops py_str std ops a) = Some sig"
  by (induction ops arbitrary: a) (simp_all add: run_op_cached)

lemma get_tf_dataset_success:
  assumes "get_tf_dataset py_str std a = (Inr ds, a')"
  shows "\<exists>sig. output_signature a' = Some sig
     \<and> ds = \<lparr>from_generator = get_tf_iterator, ds_output_signature = Some sig, prefetch = AUTOTUNE\<rparr>
     \<and> (output_signature a = None \<longrightarrow> sig = map_nest (spec_descriptor std) (first_batch a))"
proof (cases "output_signature a")
  case None
  note u = get_tf_dataset_uncached [OF None, of py_str std]
  show ?thesis
  proof (cases "find (\<lambda>x. length (shape x) < 1) (flatten (first_batch a))")
    case (Some x)
    with u assms have False by (simp only: option.case prod.inject sum.distinct simp_thms)
    then show ?thesis ..
  next
    case n: None
    with u assms have
      "ds = \<lparr>from_generator = get_tf_iterator,
             ds_output_signature = Some (map_nest (spec_descriptor std) (first_batch a)),
             prefetch = AUTOTUNE\<rparr>"
      "a' = a\<lparr>output_signature := Some (map_nest (spec_descriptor std) (first_batch a))\<rparr>"
      by (simp_all only: option.case prod.inject sum.inject)
    then show ?thesis by simp
  qed
next
  case (Some sig)
  from get_tf_dataset_cached [OF Some, of py_str std] assms
  have "ds = \<lparr>from_generator = get_tf_iterator, ds_output_signature = Some sig, prefetch = AUTOTUNE\<rparr>"
    "a' = a"
    by (simp_all only: prod.inject sum.inject)
  with Some show ?thesis by simp
qed

text \<open>
  Claim C5. Once \<^verbatim>\<open>get_tf_dataset\<close> has succeeded on an adapter, the adapter holds a
  signature, the one of the dataset returned, computed from the first batch if it was not
  there before. Every later call returns the same dataset with the same signature and
  leaves the adapter as it is, after any sequence of operations on the adapter; no
  operation changes the cached signature. A later call does not read the first batch, the
  \<^verbatim>\<open>str\<close> function or the dtype standardization again: it returns the same result
  whatever they are, so the signature is not recomputed and no field is validated again.
\<close>

theorem signature_computed_at_most_once:
  assumes "get_tf_dataset py_str std a = (Inr ds, a')"
  shows "\<exists>sig. output_signature a' = Some sig \<and> ds_output_signature ds = Some sig
     \<and> (output_signature a = None \<longrightarrow> sig = map_nest (spec_descriptor std) (first_batch a))
     \<and> get_tf_dataset py_str std a' = (Inr ds, a')
     \<and> (\<forall>ops. output_signature (run_ops py_str std ops a') = Some sig
           \<and> get_tf_dataset py_str std (run_ops py_str std ops a')
               = (Inr ds, run_ops py_str std ops a'))
     \<and> (\<forall>b py_str' std'. get_tf_dataset py_str' std' (a'\<lparr>first_batch := b\<rparr>)
               = (Inr ds, a'\<lparr>first_batch := b\<rparr>))"
proof -
  from get_tf_dataset_success [OF assms] obtain sig where
    s: "output_signature a' = Some sig"
       "ds = \<lparr>from_generator = get_tf_iterator, ds_output_signature = Some sig, prefetch = AUTOTUNE\<rparr>"
       "output_signature a = None \<longrightarrow> sig = map_nest (spec_descriptor std) (first_batch a)"
    by (elim exE conjE)
  have c: "get_tf_dataset p q z = (Inr ds, z)" if "output_signature z = Some sig"
    for p q and z :: "'a adapter"
    using that s(2) by (simp add: get_tf_dataset_cached)
  have 1: "ds_output_signature ds = Some sig" using s(2) by simp
  have 2: "get_tf_dataset py_str std a' = (Inr ds, a')" using s(1) by (rule c)
  have 3: "output_signature (run_ops py_str std ops a') = Some sig" for ops
    using s(1) by (rule run_ops_cached)
  have 4: "get_tf_dataset py_str std (run_ops py_str std ops a') = (Inr ds, run_ops py_str std ops a')" for ops
    using 3 by (rule c)
  have 5: "get_tf_dataset p q (a'\<lparr>first_batch := b\<rparr>) = (Inr ds, a'\<lparr>first_batch := b\<rparr>)" for p q b
    by (rule c) (simp add: s(1))
  show ?thesis
  proof (intro exI conjI allI)
    show "output_signature a' = Some sig" by (rule s(1))
    show "ds_output_signature ds = Some sig" by (rule 1)
    show "output_signature a = None \<longrightarrow> sig = map_nest (spec_descriptor std) (first_batch a)" by (rule s(3))
    show "get_tf_dataset py_str std a' = (Inr ds, a')" by (rule 2)
    show "output_signature (run_ops py_str std ops a') = Some sig" for ops by (rule 3)
    show "get_tf_dataset py_str std (run_ops py_str std ops a') = (Inr ds, run_ops py_str std ops a')" for ops by (rule 4)
    show "get_tf_dataset p q (a'\<lparr>first_batch := b\<rparr>) = (Inr ds, a'\<lparr>first_batch := b\<rparr>)" for p q b by (rule 5)
  qed
qed


theorem signature_computed_at_most_once_witness:
  "get_tf_dataset example_str (\<lambda>d. d) (adapter_of scenario_batch1 (Yield scenario_batch2 Exhausted)) =
     (Inr scenario_dataset,
      (adapter_of scenario_batch1 (Yield scenario_batch2 Exhausted))\<lparr>output_signature := Some scenario_signature\<rparr>)
   \<and> get_tf_dataset example_str (\<lambda>d. d)
       ((adapter_of scenario_batch1 (Yield scenario_batch2 Exhausted))\<lparr>output_signature := Some scenario_signature\<rparr>) =
     (Inr scenario_dataset,
      (adapter_of scenario_batch1 (Yield scenario_batch2 Exhausted))\<lparr>output_signature := Some scenario_signature\<rparr>)
   \<and> output_signature
       (run_ops example_str (\<lambda>d. d) [Next_batch, Get_numpy_iterator, Get_tf_dataset, Next_batch, Next_batch, Get_tf_dataset]
         ((adapter_of scenario_batch1 (Yield scenario_batch2 Exhausted))\<lparr>output_signature := Some scenario_signature\<rparr>))
       = Some scenario_signature
   \<and> get_tf_dataset example_str (\<lambda>d. d)
       ((adapter_of scenario_batch1 (Yield scenario_batch2 Exhausted))
          \<lparr>output_signature := Some scenario_signature, first_batch := scalar_batch\<rparr>) =
     (Inr scenario_dataset,
      (adapter_of scenario_batch1 (Yield scenario_batch2 Exhausted))
          \<lparr>output_signature := Some scenario_signature, first_batch := scalar_batch\<rparr>)"
proof -
  let ?a = "adapter_of scenario_batch1 (Yield scenario_batch2 Exhausted)"
  let ?a' = "?a\<lparr>output_signature := Some scenario_signature\<rparr>"
  have n: "output_signature ?a = None" by (simp add: adapter_of_def)
  have f: "find (\<lambda>x. length (shape x) < 1) (flatten (first_batch ?a)) = None"
    by (simp add: adapter_of_def scenario_batch1_def ndarray_def)
  have m: "map_nest (spec_descriptor (\<lambda>d. d)) (first_batch ?a) = scenario_signature"
    by (simp add: adapter_of_def scenario_batch1_def ndarray_def spec_descriptor_def
        is_scipy_sparse_def scenario_signature_def)
  have g: "get_tf_dataset example_str (\<lambda>d. d) ?a = (Inr scenario_dataset, ?a')"
    by (simp only: get_tf_dataset_uncached [OF n] f option.case m scenario_dataset_def)
  have o: "output_signature ?a' = Some scenario_signature" by simp
  from signature_computed_at_most_once [OF g] obtain sig where
    s: "output_signature ?a' = Some sig"
       "get_tf_dataset example_str (\<lambda>d. d) ?a' = (Inr scenario_dataset, ?a')"
       "\<forall>ops. output_signature (run_ops example_str (\<lambda>d. d) ops ?a') = Some sig
           \<and> get_tf_dataset example_str (\<lambda>d. d) (run_ops example_str (\<lambda>d. d) ops ?a')
               = (Inr scenario_dataset, run_ops example_str (\<lambda>d. d) ops ?a')"
       "\<forall>b py_str' std'. get_tf_dataset py_str' std' (?a'\<lparr>first_batch := b\<rparr>)
               = (Inr scenario_dataset, ?a'\<lparr>first_batch := b\<rparr>)"
    by (elim exE conjE)
  from s(1) o have e: "sig = scenario_signature" by (simp only: option.inject)
  from s(3) e have 3: "output_signature
       (run_ops example_str (\<lambda>d. d) [Next_batch, Get_numpy_iterator, Get_tf_dataset, Next_batch, Next_batch, Get_tf_dataset] ?a')
       = Some scenario_signature"
    by (simp only:)
  from s(4) have 4: "get_tf_dataset example_str (\<lambda>d. d) (?a'\<lparr>first_batch := scalar_batch\<rparr>)
               = (Inr scenario_dataset, ?a'\<lparr>first_batch := scalar_batch\<rparr>)"
    by (rule allE [THEN allE, THEN allE])
  show ?thesis
  proof (intro conjI)
    show "get_tf_dataset example_str (\<lambda>d. d) ?a = (Inr scenario_dataset, ?a')" by (rule g)
    show "get_tf_dataset example_str (\<lambda>d. d) ?a' = (Inr scenario_dataset, ?a')" by (rule s(2))
    show "output_signature
       (run_ops example_str (\<lambda>d. d) [Next_batch, Get_numpy_iterator, Get_tf_dataset, Next_batch, Next_batch, Get_tf_dataset] ?a')
       = Some scenario_signature" by (rule 3)
    show "get_tf_dataset example_str (\<lambda>d. d)
       (?a\<lparr>output_signature := Some scenario_signature, first_batch := scalar_batch\<rparr>) =
     (Inr scenario_dataset, ?a\<lparr>output_signature := Some scenario_signature, first_batch := scalar_batch\<rparr>)"
      using 4 by simp
  qed
qed

section \<open>The per-batch conversion of the dataset path\<close>

lemma concatenate_expand_dims:
  "length r = length k \<Longrightarrow>
   concatenate_axis1 (expand_dims_axis1 r) (expand_dims_axis1 k) = Inr (map (\<lambda>(i, j). [i, j]) (zip r k))"
  by (induction r k rule: list_induct2) (simp_all add: concatenate_axis1_def expand_dims_axis1_def)

lemma scipy_sparse_to_tf_sparse_coo:
  "length (row c) = length (col c) \<Longrightarrow> scipy_sparse_to_tf_sparse c = Inr (coo_triple c)"
  by (simp add: scipy_sparse_to_tf_sparse_def concatenate_expand_dims coo_triple_def)

lemma convert_to_tf_sparse:
  "is_scipy_sparse x \<Longrightarrow> tocoo x = Some c \<Longrightarrow> length (row c) = length (col c) \<Longrightarrow>
   convert_to_tf x = Inr (SparseTensor (coo_triple c))"
  by (simp add: convert_to_tf_def scipy_sparse_to_tf_sparse_coo)

lemma convert_to_tf_dense: "\<not> is_scipy_sparse x \<Longrightarrow> convert_to_tf x = Inr (PyObject x)"
  by (simp add: convert_to_tf_def)

lemma convert_to_tf_spec:
  "(is_scipy_sparse x \<longrightarrow> (\<exists>k. tocoo x = Some k \<and> length (row k) = length (col k))) \<Longrightarrow>
   convert_to_tf x = Inr (spec_convert x)"
proof (cases "is_scipy_sparse x")
  case True
  assume "is_scipy_sparse x \<longrightarrow> (\<exists>k. tocoo x = Some k \<and> length (row k) = length (col k))"
  with True obtain k where k: "tocoo x = Some k" "length (row k) = length (col k)" by blast
  from True k have "convert_to_tf x = Inr (SparseTensor (coo_triple k))" by (rule convert_to_tf_sparse)
  moreover from True k(1) have "spec_convert x = SparseTensor (coo_triple k)"
    by (simp add: spec_convert_def)
  ultimately show ?thesis by simp
next
  case False
  then show ?thesis by (simp add: convert_to_tf_dense spec_convert_def split: option.splits)
qed

lemma flatten_map_nest:
  "flatten (map_nest f b) = map f (flatten b)"
  "flattens (map (map_nest f) bs) = map f (flattens bs)"
  by (induction b and bs rule: flatten_flattens.induct) simp_all

lemma map_nest_cong_leaves:
  "(\<forall>x \<in> set (flatten b). f x = g x) \<Longrightarrow> map_nest f b = map_nest g b"
  "(\<forall>x \<in> set (flattens bs). f x = g x) \<Longrightarrow> map (map_nest f) bs = map (map_nest g) bs"
  by (induction b and bs rule: flatten_flattens.induct) simp_all

lemma coo_triple_indices:
  "length (row c) = length (col c) \<Longrightarrow>
   length (indices (coo_triple c)) = length (row c)
   \<and> (\<forall>i < length (row c). indices (coo_triple c) ! i = [row c ! i, col c ! i])"
  by (simp add: coo_triple_def)


lemma next_tf_iterator:
  "next_chain (generator a) = (Inr b, ch) \<Longrightarrow> map_structure convert_to_tf b = Inr y \<Longrightarrow>
   next_iterator get_tf_iterator a = (Inr y, get_tf_iterator, a\<lparr>generator := ch\<rparr>)"
  by (simp add: next_iterator_def get_tf_iterator_def)

text \<open>
  Claim C6. On the dataset path a field of the SciPy sparse convention, whose coordinate
  form has as many row indices as column indices, is converted into the sparse tensor of
  its coordinate triple: the index array has one \<open>[row, col]\<close> pair per stored entry, in
  order, the values are the data of the coordinate form and the dense shape is its shape.
  A field that is not of that convention passes through as the same object. The iterator
  of the dataset yields each batch of the owned generator with this conversion applied to
  every field, the structure of the batch kept.
\<close>

theorem sparse_fields_become_coordinate_triples:
  "(is_scipy_sparse x \<and> tocoo x = Some c \<and> length (row c) = length (col c) \<longrightarrow>
      convert_to_tf x = Inr (SparseTensor (coo_triple c))
      \<and> length (indices (coo_triple c)) = length (row c)
      \<and> (\<forall>i < length (row c). indices (coo_triple c) ! i = [row c ! i, col c ! i])
      \<and> tensor_values (coo_triple c) = data c
      \<and> dense_shape (coo_triple c) = coo_shape c)
   \<and> (\<not> is_scipy_sparse x \<longrightarrow> convert_to_tf x = Inr (PyObject x))
   \<and> ((\<forall>y \<in> set (flatten b).
          is_scipy_sparse y \<longrightarrow> (\<exists>k. tocoo y = Some k \<and> length (row k) = length (col k)))
       \<and> next_chain (generator a) = (Inr b, ch) \<longrightarrow>
        next_iterator get_tf_iterator a =
          (Inr (map_nest spec_convert b), get_tf_iterator, a\<lparr>generator := ch\<rparr>)
        \<and> flatten (map_nest spec_convert b) = map spec_convert (flatten b))
   \<and> ((\<forall>y \<in> set (flatten b). \<not> is_scipy_sparse y) \<longrightarrow>
        map_structure convert_to_tf b = Inr (map_nest PyObject b))
   \<and> (get_tf_dataset py_str std a = (Inr ds, a') \<longrightarrow> from_generator ds = get_tf_iterator)"
proof (intro conjI impI)
  assume h: "is_scipy_sparse x \<and> tocoo x = Some c \<and> length (row c) = length (col c)"
  then show "convert_to_tf x = Inr (SparseTensor (coo_triple c))"
    by (simp add: convert_to_tf_sparse)
  from h show "length (indices (coo_triple c)) = length (row c)"
    by (simp add: coo_triple_indices)
  from h show "\<forall>i < length (row c). indices (coo_triple c) ! i = [row c ! i, col c ! i]"
    by (simp add: coo_triple_indices)
  show "tensor_values (coo_triple c) = data c" by (simp add: coo_triple_def)
  show "dense_shape (coo_triple c) = coo_shape c" by (simp add: coo_triple_def)
next
  assume "\<not> is_scipy_sparse x"
  then show "convert_to_tf x = Inr (PyObject x)" by (rule convert_to_tf_dense)
next
  assume h: "(\<forall>y \<in> set (flatten b).
          is_scipy_sparse y \<longrightarrow> (\<exists>k. tocoo y = Some k \<and> length (row k) = length (col k)))
       \<and> next_chain (generator a) = (Inr b, ch)"
  then have "\<forall>y \<in> set (flatten b). convert_to_tf y = Inr (spec_convert y)"
    by (simp add: convert_to_tf_spec)
  then have "map_structure convert_to_tf b = Inr (map_nest spec_convert b)"
    by (rule map_structure_total)
  with h show "next_iterator get_tf_iterator a =
          (Inr (map_nest spec_convert b), get_tf_iterator, a\<lparr>generator := ch\<rparr>)"
    by (simp add: next_tf_iterator)
  show "flatten (map_nest spec_convert b) = map spec_convert (flatten b)"
    by (rule flatten_map_nest)
next
  assume "\<forall>y \<in> set (flatten b). \<not> is_scipy_sparse y"
  then have "\<forall>y \<in> set (flatten b). convert_to_tf y = Inr (PyObject y)"
    by (simp add: convert_to_tf_dense)
  then show "map_structure convert_to_tf b = Inr (map_nest PyObject b)"
    by (rule map_structure_total)
next
  assume g: "get_tf_dataset py_str std a = (Inr ds, a')"
  from get_tf_dataset_success [OF g] obtain sig where
    "ds = \<lparr>from_generator = get_tf_iterator, ds_output_signature = Some sig, prefetch = AUTOTUNE\<rparr>"
    by (elim exE conjE)
  then show "from_generator ds = get_tf_iterator" by simp
qed

theorem sparse_fields_become_coordinate_triples_witness:
  "is_scipy_sparse csr_example
   \<and> convert_to_tf csr_example =
       Inr (SparseTensor \<lparr>indices = [[0, 1], [1, 0]], tensor_values = [5, 6], dense_shape = [2, 2]\<rparr>)
   \<and> \<not> is_scipy_sparse (ndarray [2] ''int64'' [0, 1])
   \<and> convert_to_tf (ndarray [2] ''int64'' [0, 1]) = Inr (PyObject (ndarray [2] ''int64'' [0, 1]))
   \<and> next_iterator get_tf_iterator (adapter_of sparse_batch Exhausted) =
       (Inr (Tuple [Leaf (SparseTensor \<lparr>indices = [[0, 1], [1, 0]], tensor_values = [5, 6], dense_shape = [2, 2]\<rparr>),
                    Leaf (PyObject (ndarray [2] ''int64'' [0, 1]))]),
        get_tf_iterator,
        (adapter_of sparse_batch Exhausted)\<lparr>generator := \<lparr>pending = [], source = Exhausted\<rparr>\<rparr>)"
proof -
  let ?c = "\<lparr>row = [0, 1], col = [1, 0], data = [5, 6::int], coo_shape = [2, 2]\<rparr>"
  let ?d = "ndarray [2] ''int64'' [0, 1]"
  let ?a = "adapter_of sparse_batch Exhausted"
  let ?ch = "\<lparr>pending = [], source = Exhausted\<rparr> :: int batch chain"
  have sp: "is_scipy_sparse csr_example"
    by (simp add: is_scipy_sparse_def startswith_def csr_example_def)
  have co: "tocoo csr_example = Some ?c" by (simp add: csr_example_def)
  have le: "length (row ?c) = length (col ?c)" by simp
  have nd: "\<not> is_scipy_sparse ?d" by (simp add: is_scipy_sparse_def ndarray_def)
  have tr: "coo_triple ?c = \<lparr>indices = [[0, 1], [1, 0]], tensor_values = [5, 6], dense_shape = [2, 2]\<rparr>"
    by (simp add: coo_triple_def)
  have wf: "\<forall>y \<in> set (flatten sparse_batch).
          is_scipy_sparse y \<longrightarrow> (\<exists>k. tocoo y = Some k \<and> length (row k) = length (col k))"
    using nd by (simp add: sparse_batch_def csr_example_def)
  have nx: "next_chain (generator ?a) = (Inr sparse_batch, ?ch)"
    by (simp add: adapter_of_def next_chain_def)
  have cv: "map_nest spec_convert sparse_batch =
      Tuple [Leaf (SparseTensor \<lparr>indices = [[0, 1], [1, 0]], tensor_values = [5, 6], dense_shape = [2, 2]\<rparr>),
             Leaf (PyObject ?d)]"
    using sp nd co tr by (simp add: sparse_batch_def spec_convert_def ndarray_def)
  note th1 = sparse_fields_become_coordinate_triples
    [of csr_example ?c sparse_batch ?a ?ch example_str "\<lambda>d. d" scenario_dataset ?a]
  note th2 = sparse_fields_become_coordinate_triples
    [of ?d ?c sparse_batch ?a ?ch example_str "\<lambda>d. d" scenario_dataset ?a]
  have "convert_to_tf csr_example = Inr (SparseTensor (coo_triple ?c))"
    by (rule th1 [THEN conjunct1, THEN mp, OF conjI [OF sp conjI [OF co le]], THEN conjunct1])
  with tr have 1: "convert_to_tf csr_example =
       Inr (SparseTensor \<lparr>indices = [[0, 1], [1, 0]], tensor_values = [5, 6], dense_shape = [2, 2]\<rparr>)"
    by (simp only:)
  have 2: "convert_to_tf ?d = Inr (PyObject ?d)"
    by (rule th2 [THEN conjunct2, THEN conjunct1, THEN mp, OF nd])
  have "next_iterator get_tf_iterator ?a =
          (Inr (map_nest spec_convert sparse_batch), get_tf_iterator, ?a\<lparr>generator := ?ch\<rparr>)"
    by (rule th1 [THEN conjunct2, THEN conjunct2, THEN conjunct1, THEN mp, OF conjI [OF wf nx], THEN conjunct1])
  with cv have 3: "next_iterator get_tf_iterator ?a =
       (Inr (Tuple [Leaf (SparseTensor \<lparr>indices = [[0, 1], [1, 0]], tensor_values = [5, 6], dense_shape = [2, 2]\<rparr>),
                    Leaf (PyObject ?d)]),
        get_tf_iterator, ?a\<lparr>generator := ?ch\<rparr>)"
    by (simp only:)
  from sp 1 nd 2 3 show ?thesis by (intro conjI)
qed

end
